theory Spec2Isabelle
  imports Complex_Main
begin

section \<open>Python values and exceptions\<close>

text \<open>
  The task engine is asynchronous Python.  Its functions are embedded here as pure
  functions over explicit state: a \<^emph>\<open>Run\<close> object is a record, every exception that the
  source can meet is a value, and everything the operating system or the event loop
  decides (what a callable returns, what a pipe delivers, whether a signal can be sent)
  is an explicit argument.  A private name of the source, \<^verbatim>\<open>_name\<close>, is written
  \<open>priv_name\<close>.
\<close>

text \<open>The values a run can hold as its result: \<^verbatim>\<open>None\<close>, a \<^verbatim>\<open>str\<close>, a \<^verbatim>\<open>bytes\<close> object or an integer.\<close>

datatype pyval = PyNone | PyStr string | PyBytes string | PyInt int

text \<open>
  Exceptions, all of them subclasses of \<^verbatim>\<open>Exception\<close> (the handlers of the source are
  \<^verbatim>\<open>except Exception\<close> and \<^verbatim>\<open>except asyncio.TimeoutError\<close>); \<open>exn_str\<close> is \<^verbatim>\<open>str(e)\<close>.
\<close>

datatype exn_type =
  TimeoutError | TypeError | AttributeError | RuntimeError | ProcessLookupError | OtherError

datatype exn = Exn (exn_type: exn_type) (exn_str: string)

text \<open>\<^verbatim>\<open>value.decode()\<close>: only \<^verbatim>\<open>bytes\<close> has the method; \<^verbatim>\<open>str\<close> and \<^verbatim>\<open>None\<close> raise AttributeError.\<close>

definition py_decode :: "pyval \<Rightarrow> exn + pyval" where
  "py_decode v =
     (case v of
        PyBytes b \<Rightarrow> Inr (PyStr b)
      | _ \<Rightarrow> Inl (Exn AttributeError ''object has no attribute decode''))"

text \<open>\<^verbatim>\<open>str(n)\<close> for an integer, in decimal.\<close>

fun str_nat :: "nat \<Rightarrow> string" where
  "str_nat n =
     (if n < 10 then [char_of (48 + n)]
      else str_nat (n div 10) @ [char_of (48 + n mod 10)])"

declare str_nat.simps [simp del]

definition str_int :: "int \<Rightarrow> string" where
  "str_int i = (if i < 0 then CHR ''-'' # str_nat (nat (- i)) else str_nat (nat i))"

definition str_opt_int :: "int option \<Rightarrow> string" where
  "str_opt_int t = (case t of None \<Rightarrow> ''None'' | Some i \<Rightarrow> str_int i)"

section \<open>Run (tasks/run.py)\<close>

text \<open>
  Modelled from the spec: the enumerations of \<^verbatim>\<open>tasks/models\<close> are not among the sources.
  The status is one of CREATED, PENDING, RUNNING, COMPLETE, FAILED, CANCELLED; a task is an
  in-process call or an external command; a command runs as a subprocess or in a shell.
\<close>

datatype RunStatus = CREATED | PENDING | RUNNING | COMPLETE | FAILED | CANCELLED

datatype TaskType = CALLABLE | SHELL

datatype CommandType = Subprocess | Shell

text \<open>
  The target of a run is a callable or a command string.  Of a callable the engine reads
  \<^verbatim>\<open>__name__\<close>, its truth value and whether \<^verbatim>\<open>inspect\<close> classifies it as a coroutine.
\<close>

record callable =
  name :: string
  is_coroutine :: bool
  truthy :: bool

datatype call_target = Callable callable | Command string

text \<open>The handle \<^verbatim>\<open>asyncio.subprocess.Process\<close>: the pid and the exit code once known.\<close>

record process =
  pid :: int
  returncode :: "int option"

text \<open>The handle that \<^verbatim>\<open>asyncio.ensure_future\<close> returns is an \<^verbatim>\<open>asyncio.Task\<close>.\<close>

datatype asyncio_task = AsyncioTask

text \<open>
  The slots of \<^verbatim>\<open>Run\<close>.  Clock readings (\<^verbatim>\<open>time.monotonic()\<close>) are rationals; \<open>timeout\<close>
  is \<^verbatim>\<open>Optional[int]\<close> as \<^verbatim>\<open>__init__\<close> declares it.  The executor, the semaphore, the
  event loop and the read lock are references to shared objects and are not part of the
  record: the semaphore's counter is passed to the functions that use it.
\<close>

record run =
  run_id :: int
  status :: RunStatus
  error :: "string option"
  trace :: "string option"
  start :: rat
  end_time :: rat
  elapsed :: rat
  timeout :: "int option"
  call :: call_target
  result :: pyval
  task_type :: TaskType
  priv_task :: "asyncio_task option"
  priv_process :: "process option"
  priv_args :: "string list option"
  priv_env :: "(string \<times> string) list option"
  priv_working_directory :: "string option"
  priv_command_type :: CommandType

definition Run_init :: "int \<Rightarrow> call_target \<Rightarrow> TaskType \<Rightarrow> int option \<Rightarrow> rat \<Rightarrow> run" where
  "Run_init rid c tt t now =
     \<lparr> run_id = rid, status = CREATED, error = None, trace = None,
       start = now, end_time = 0, elapsed = 0, timeout = t,
       call = c, result = PyNone, task_type = tt,
       priv_task = None, priv_process = None, priv_args = None, priv_env = None,
       priv_working_directory = None, priv_command_type = Subprocess \<rparr>"

subsection \<open>Status predicates\<close>

definition running :: "run \<Rightarrow> bool" where
  "running r = (status r = RUNNING)"

definition cancelled :: "run \<Rightarrow> bool" where
  "cancelled r = (status r = CANCELLED)"

definition failed :: "run \<Rightarrow> bool" where
  "failed r = (status r = FAILED)"

definition pending :: "run \<Rightarrow> bool" where
  "pending r = (status r = PENDING)"

definition completed :: "run \<Rightarrow> bool" where
  "completed r = (status r = COMPLETE)"

definition created :: "run \<Rightarrow> bool" where
  "created r = (status r = CREATED)"

definition return_code :: "run \<Rightarrow> int option" where
  "return_code r = (case priv_process r of Some p \<Rightarrow> returncode p | None \<Rightarrow> None)"

definition update_status :: "run \<Rightarrow> RunStatus \<Rightarrow> rat \<Rightarrow> run" where
  "update_status r s now = r\<lparr>status := s, elapsed := now - start r\<rparr>"

subsection \<open>Cancel and abort\<close>

text \<open>
  \<^verbatim>\<open>try: ... except Exception: pass\<close>: whatever the guarded statement raises is dropped.
\<close>

definition except_pass :: "exn option \<Rightarrow> exn option" where
  "except_pass raised = None"

text \<open>
  \<^verbatim>\<open>self._task.set_result(None)\<close>.  The handle is an \<^verbatim>\<open>asyncio.Task\<close>, whose
  \<^verbatim>\<open>set_result\<close> always raises RuntimeError; on \<^verbatim>\<open>None\<close> the attribute lookup raises.
\<close>

definition task_set_result :: "asyncio_task option \<Rightarrow> exn option" where
  "task_set_result t =
     (case t of
        None \<Rightarrow> Some (Exn AttributeError ''NoneType object has no attribute set_result'')
      | Some AsyncioTask \<Rightarrow> Some (Exn RuntimeError ''Task does not support set_result operation''))"

text \<open>
  \<open>cancel terminate r\<close>: \<open>terminate\<close> is what \<^verbatim>\<open>psutil.Process(pid).terminate()\<close> raises
  (\<open>None\<close> when the signal is sent).  The result is \<open>Inl e\<close> when the call raises \<open>e\<close>.
\<close>

definition cancel :: "exn option \<Rightarrow> run \<Rightarrow> exn + run" where
  "cancel terminate r =
     (case (case priv_process r of Some p \<Rightarrow> except_pass terminate | None \<Rightarrow> None) of
        Some e \<Rightarrow> Inl e
      | None \<Rightarrow>
          (case except_pass (task_set_result (priv_task r)) of
             Some e \<Rightarrow> Inl e
           | None \<Rightarrow> Inr (r\<lparr>status := CANCELLED\<rparr>)))"

text \<open>
  \<open>abort kill r\<close>: \<open>kill\<close> is what \<^verbatim>\<open>self._process.kill()\<close> raises; asyncio raises
  ProcessLookupError there once the process has exited.  The call is not guarded.
\<close>

definition abort :: "exn option \<Rightarrow> run \<Rightarrow> exn + run" where
  "abort kill r =
     (case (case priv_process r of Some p \<Rightarrow> kill | None \<Rightarrow> None) of
        Some e \<Rightarrow> Inl e
      | None \<Rightarrow>
          (case except_pass (task_set_result (priv_task r)) of
             Some e \<Rightarrow> Inl e
           | None \<Rightarrow> Inr (r\<lparr>status := CANCELLED\<rparr>)))"

subsection \<open>Error messages\<close>

definition timeout_message :: "int \<Rightarrow> int option \<Rightarrow> string" where
  "timeout_message rid t =
     ''Err. - Task Run - '' @ str_int rid @ '' - timed out. Exceeded deadline of - ''
       @ str_opt_int t @ '' - seconds.''"

definition failure_message :: "int \<Rightarrow> string \<Rightarrow> string" where
  "failure_message rid msg =
     ''Err. - Task Run - '' @ str_int rid @ '' - failed. Encountered exception - ''
       @ msg @ ''.''"

definition str_opt_str :: "string option \<Rightarrow> string" where
  "str_opt_str s = (case s of None \<Rightarrow> ''None'' | Some x \<Rightarrow> x)"

subsection \<open>In-process execution\<close>

text \<open>
  What the callable does when it is called with the run's arguments: it finishes after
  some time, returning a value or raising, or it never finishes.
\<close>

datatype outcome = Returns pyval | Raises exn

datatype behaviour = Finishes rat outcome | Never

text \<open>The result of an \<^verbatim>\<open>await\<close>: a value, an exception, or no resumption at all.\<close>

datatype 'a attempt = Ok 'a | Raised exn | Suspended

definition await :: "behaviour \<Rightarrow> pyval attempt" where
  "await b =
     (case b of
        Finishes d (Returns v) \<Rightarrow> Ok v
      | Finishes d (Raises e) \<Rightarrow> Raised e
      | Never \<Rightarrow> Suspended)"

text \<open>
  \<^verbatim>\<open>asyncio.wait_for(aw, timeout=t)\<close>: the awaitable's own outcome when it finishes within
  \<open>t\<close> seconds, TimeoutError otherwise.
\<close>

definition wait_for :: "behaviour \<Rightarrow> int \<Rightarrow> pyval attempt" where
  "wait_for b t =
     (case b of
        Finishes d (Returns v) \<Rightarrow> if d \<le> of_int t then Ok v else Raised (Exn TimeoutError [])
      | Finishes d (Raises e) \<Rightarrow> if d \<le> of_int t then Raised e else Raised (Exn TimeoutError [])
      | Never \<Rightarrow> Raised (Exn TimeoutError []))"

text \<open>
  \<^verbatim>\<open>asyncio.wait_for(aw)\<close>, as the pool-bound branch with a timeout calls it: \<^verbatim>\<open>timeout\<close> is a
  required parameter of \<^verbatim>\<open>wait_for\<close>, so the call raises TypeError before anything is
  awaited (the work item is already submitted to the pool by then).
\<close>

definition wait_for_without_timeout :: "behaviour \<Rightarrow> pyval attempt" where
  "wait_for_without_timeout b =
     Raised (Exn TypeError
       (''wait_for() missing 1 required positional argument: ''
          @ [CHR 0x27] @ ''timeout'' @ [CHR 0x27]))"

text \<open>The truth value of \<^verbatim>\<open>self.timeout\<close>: \<^verbatim>\<open>None\<close> and \<^verbatim>\<open>0\<close> are false.\<close>

definition timeout_set :: "int option \<Rightarrow> int option" where
  "timeout_set t = (case t of None \<Rightarrow> None | Some n \<Rightarrow> if n = 0 then None else Some n)"

definition call_is_coroutine :: "call_target \<Rightarrow> bool" where
  "call_is_coroutine c = (case c of Callable f \<Rightarrow> is_coroutine f | Command s \<Rightarrow> False)"

text \<open>
  \<^verbatim>\<open>asyncio.Semaphore\<close>: the counter of free slots.  \<^verbatim>\<open>acquire\<close> takes one when the counter
  is positive and otherwise waits (here: no resumption); \<^verbatim>\<open>release\<close> adds one.
\<close>

definition acquire :: "nat \<Rightarrow> nat attempt" where
  "acquire sem = (if sem = 0 then Suspended else Ok (sem - 1))"

definition release :: "nat \<Rightarrow> nat" where
  "release sem = sem + 1"

text \<open>
  The \<^verbatim>\<open>try\<close> block of \<^verbatim>\<open>_execute\<close>: the run and the semaphore as the block leaves them, and
  how it leaves (normally, by an exception, or never).
\<close>

definition execute_try :: "run \<Rightarrow> nat \<Rightarrow> behaviour \<Rightarrow> unit attempt \<times> run \<times> nat" where
  "execute_try r0 sem b =
     (let r = r0\<lparr>status := RUNNING\<rparr> in
      case (timeout_set (timeout r), call_is_coroutine (call r)) of
        (Some t, True) \<Rightarrow>
          (case wait_for b t of
             Ok v \<Rightarrow> (Ok (), r\<lparr>result := v, status := COMPLETE\<rparr>, sem)
           | Raised e \<Rightarrow> (Raised e, r, sem)
           | Suspended \<Rightarrow> (Suspended, r, sem))
      | (None, True) \<Rightarrow>
          (case await b of
             Ok v \<Rightarrow> (Ok (), r\<lparr>result := v, status := COMPLETE\<rparr>, sem)
           | Raised e \<Rightarrow> (Raised e, r, sem)
           | Suspended \<Rightarrow> (Suspended, r, sem))
      | (Some t, False) \<Rightarrow>
          (case acquire sem of
             Ok sem1 \<Rightarrow>
               (case wait_for_without_timeout b of
                  Ok v \<Rightarrow> (Ok (), r\<lparr>result := v, status := COMPLETE\<rparr>, release sem1)
                | Raised e \<Rightarrow> (Raised e, r, sem1)
                | Suspended \<Rightarrow> (Suspended, r, sem1))
           | Raised e \<Rightarrow> (Raised e, r, sem)
           | Suspended \<Rightarrow> (Suspended, r, sem))
      | (None, False) \<Rightarrow>
          (case acquire sem of
             Ok sem1 \<Rightarrow>
               (case await b of
                  Ok v \<Rightarrow> (Ok (), r\<lparr>result := v, status := COMPLETE\<rparr>, release sem1)
                | Raised e \<Rightarrow> (Raised e, r, sem1)
                | Suspended \<Rightarrow> (Suspended, r, sem1))
           | Raised e \<Rightarrow> (Raised e, r, sem)
           | Suspended \<Rightarrow> (Suspended, r, sem)))"

text \<open>
  \<^verbatim>\<open>_execute\<close>.  \<open>format_exc\<close> is \<^verbatim>\<open>traceback.format_exc()\<close> for the exception being
  handled, \<open>now\<close> the clock when the handlers are left.  The result is the run and the
  semaphore afterwards, or \<open>None\<close> when the coroutine never resumes.
\<close>

definition priv_execute ::
  "(exn \<Rightarrow> string) \<Rightarrow> run \<Rightarrow> nat \<Rightarrow> behaviour \<Rightarrow> rat \<Rightarrow> (run \<times> nat) option" where
  "priv_execute format_exc r0 sem b now =
     (case execute_try r0 sem b of
        (Suspended, r, sem') \<Rightarrow> None
      | (Ok u, r, sem') \<Rightarrow>
          Some (r\<lparr>end_time := now, elapsed := now - start r\<rparr>, sem')
      | (Raised e, r, sem') \<Rightarrow>
          (if exn_type e = TimeoutError then
             Some (r\<lparr>error := Some (timeout_message (run_id r) (timeout r)),
                     status := FAILED, end_time := now, elapsed := now - start r\<rparr>, sem')
           else
             Some (r\<lparr>error := Some (failure_message (run_id r) (exn_str e)),
                     trace := Some (format_exc e),
                     status := FAILED, end_time := now, elapsed := now - start r\<rparr>, sem')))"

text \<open>\<^verbatim>\<open>execute\<close> schedules \<^verbatim>\<open>_execute\<close> on the event loop and keeps the task handle.\<close>

definition execute :: "run \<Rightarrow> run" where
  "execute r = r\<lparr>priv_task := Some AsyncioTask\<rparr>"


subsection \<open>Subprocess execution\<close>

text \<open>
  Modelled from the spec: the snapshot classes \<^verbatim>\<open>ShellProcess\<close> and \<^verbatim>\<open>TaskRun\<close> of
  \<^verbatim>\<open>tasks/models\<close> are not among the sources.  A snapshot is the record of run id, status,
  error, trace, elapsed time and result, for a subprocess also process id, command,
  arguments, exit code, environment, working directory and command type.  It holds the
  values that its constructor call in \<^verbatim>\<open>run.py\<close> passes, under the keyword names used
  there; a field that a call leaves out is \<^verbatim>\<open>None\<close>.
\<close>

record ShellProcess =
  sp_run_id :: int
  sp_process_id :: int
  sp_command :: call_target
  sp_args :: "string list option"
  sp_status :: RunStatus
  sp_return_code :: "int option"
  sp_env :: "(string \<times> string) list option"
  sp_working_directory :: "string option"
  sp_command_type :: CommandType
  sp_error :: "string option"
  sp_result :: pyval
  sp_trace :: "string option"
  sp_elapsed :: rat

record TaskRun =
  tr_run_id :: int
  tr_status :: RunStatus
  tr_error :: "string option"
  tr_trace :: "string option"
  tr_start :: rat
  tr_end :: rat
  tr_elapsed :: rat
  tr_result :: pyval

datatype run_update = ShellUpdate ShellProcess | TaskUpdate TaskRun

text \<open>
  One call of \<^verbatim>\<open>get_run_update\<close> on a subprocess run drains the two pipes
  (\<^verbatim>\<open>get_stderr\<close>, then \<^verbatim>\<open>get_stdout\<close>, each decoded to \<^verbatim>\<open>str\<close>) and then reads the exit
  code and the clock.  An observation is what one such call meets.
\<close>

record observation =
  ob_stderr :: string
  ob_stdout :: string
  ob_returncode :: "int option"
  ob_now :: rat

definition get_run_update :: "run \<Rightarrow> observation \<Rightarrow> run \<times> run_update" where
  "get_run_update r ob =
     (case priv_process r of
        Some p \<Rightarrow>
          (let p' = p\<lparr>returncode := ob_returncode ob\<rparr>;
               r' = r\<lparr>priv_process := Some p'\<rparr>
           in (r', ShellUpdate
                \<lparr> sp_run_id = run_id r', sp_process_id = pid p', sp_command = call r',
                  sp_args = priv_args r', sp_status = status r',
                  sp_return_code = returncode p', sp_env = priv_env r',
                  sp_working_directory = priv_working_directory r',
                  sp_command_type = priv_command_type r',
                  sp_error = Some (ob_stderr ob), sp_result = PyStr (ob_stdout ob),
                  sp_trace = trace r', sp_elapsed = ob_now ob - start r' \<rparr>))
      | None \<Rightarrow>
          (r, TaskUpdate
                \<lparr> tr_run_id = run_id r, tr_status = status r, tr_error = error r,
                  tr_trace = trace r, tr_start = start r, tr_end = end_time r,
                  tr_elapsed = ob_now ob - start r, tr_result = result r \<rparr>))"

text \<open>
  How the polling coroutine ends: with the last snapshot, with an exception, or still
  waiting when the observations run out.
\<close>

datatype poll_result =
  Polled run run_update | PollRaised run exn | PollWaiting run

definition no_returncode_attribute :: exn where
  "no_returncode_attribute =
     Exn AttributeError ''NoneType object has no attribute returncode''"

text \<open>The \<^verbatim>\<open>while\<close> loop of \<^verbatim>\<open>_poll_for_shell_complete\<close>, one observation per iteration.\<close>

fun poll_loop :: "run \<Rightarrow> run_update \<Rightarrow> observation list \<Rightarrow> poll_result" where
  "poll_loop r u obs =
     (case priv_process r of
        None \<Rightarrow> PollRaised r no_returncode_attribute
      | Some p \<Rightarrow>
          (case returncode p of
             Some rc \<Rightarrow> Polled r u
           | None \<Rightarrow>
               (case obs of
                  [] \<Rightarrow> PollWaiting r
                | ob # rest \<Rightarrow>
                    (case get_run_update r ob of
                       (r', u') \<Rightarrow> poll_loop (r'\<lparr>elapsed := ob_now ob - start r'\<rparr>) u' rest))))"

definition priv_poll_for_shell_complete :: "run \<Rightarrow> observation list \<Rightarrow> poll_result" where
  "priv_poll_for_shell_complete r obs =
     (case obs of
        [] \<Rightarrow>
          (case priv_process r of
             None \<Rightarrow> PollRaised r no_returncode_attribute
           | Some p \<Rightarrow> PollWaiting r)
      | ob # rest \<Rightarrow> (case get_run_update r ob of (r', u) \<Rightarrow> poll_loop r' u rest))"

definition update_error :: "run_update \<Rightarrow> string option" where
  "update_error u = (case u of ShellUpdate s \<Rightarrow> sp_error s | TaskUpdate t \<Rightarrow> tr_error t)"

definition update_result :: "run_update \<Rightarrow> pyval" where
  "update_result u = (case u of ShellUpdate s \<Rightarrow> sp_result s | TaskUpdate t \<Rightarrow> tr_result t)"

text \<open>
  The part of \<^verbatim>\<open>_execute_shell\<close> after the polling (from \<^verbatim>\<open>error_message = ''\<close> on): it
  stores the error text, sets the status from the exit code and tries to decode the
  snapshot's result.
\<close>

definition execute_shell_finish :: "run \<Rightarrow> run_update \<Rightarrow> run" where
  "execute_shell_finish r u =
     (let error_message = update_error u;
          r1 = r\<lparr>error := error_message\<rparr>;
          r2 = (if return_code r1 \<noteq> Some 0
                then r1\<lparr>error := Some (failure_message (run_id r1) (str_opt_str error_message)),
                        status := FAILED\<rparr>
                else r1\<lparr>status := COMPLETE\<rparr>)
      in case py_decode (update_result u) of
           Inr v \<Rightarrow> r2\<lparr>result := v\<rparr>
         | Inl e \<Rightarrow> r2)"

text \<open>
  The handler of \<^verbatim>\<open>asyncio.TimeoutError\<close> in \<^verbatim>\<open>_execute_shell\<close>; \<open>rc\<close> and \<open>now\<close> are the exit
  code and the clock when the deadline passes.  Without a process handle the snapshot
  cannot be built (\<^verbatim>\<open>self._process.pid\<close>).
\<close>

definition shell_timeout_update :: "run \<Rightarrow> int option \<Rightarrow> rat \<Rightarrow> exn + run \<times> run_update" where
  "shell_timeout_update r0 rc now =
     (let r = r0\<lparr>status := FAILED\<rparr> in
      case priv_process r of
        None \<Rightarrow> Inl (Exn AttributeError ''NoneType object has no attribute pid'')
      | Some p \<Rightarrow>
          (let p' = p\<lparr>returncode := rc\<rparr>;
               r' = r\<lparr>priv_process := Some p'\<rparr>
           in Inr (r', ShellUpdate
                \<lparr> sp_run_id = run_id r', sp_process_id = pid p', sp_command = call r',
                  sp_args = priv_args r', sp_status = status r',
                  sp_return_code = returncode p', sp_env = priv_env r',
                  sp_working_directory = priv_working_directory r',
                  sp_command_type = priv_command_type r',
                  sp_error = Some (timeout_message (run_id r') (timeout r')),
                  sp_result = PyNone,
                  sp_trace = trace r', sp_elapsed = start r' - now \<rparr>)))"

text \<open>
  What the environment decides during one \<^verbatim>\<open>_execute_shell\<close>: the process that
  \<^verbatim>\<open>create_subprocess_exec\<close> or \<^verbatim>\<open>create_subprocess_shell\<close> returns (\<open>None\<close> when it raises),
  the observations of the successive polls up to the deadline, and the exit code and
  clock at the deadline.
\<close>

record shell_env =
  spawned :: "process option"
  observations :: "observation list"
  deadline_returncode :: "int option"
  deadline_now :: rat

text \<open>
  \<^verbatim>\<open>_execute_shell\<close> with the keyword arguments \<^verbatim>\<open>shell\<close> and \<^verbatim>\<open>timeout\<close>.  The result is
  \<open>None\<close> when the coroutine never resumes, \<open>Inl e\<close> when it raises \<open>e\<close>, and otherwise the
  run and the snapshot returned.
\<close>

definition priv_execute_shell ::
  "run \<Rightarrow> bool \<Rightarrow> int option \<Rightarrow> shell_env \<Rightarrow> (exn + run \<times> run_update) option" where
  "priv_execute_shell r0 shell tmo E =
     (let r1 = (if shell then r0\<lparr>priv_command_type := Shell\<rparr> else r0);
          r2 = (case spawned E of Some p \<Rightarrow> r1\<lparr>priv_process := Some p\<rparr> | None \<Rightarrow> r1);
          r3 = r2\<lparr>status := RUNNING\<rparr>
      in case priv_poll_for_shell_complete r3 (observations E) of
           Polled r u \<Rightarrow> Some (Inr (execute_shell_finish r u, u))
         | PollRaised r e \<Rightarrow> Some (Inl e)
         | PollWaiting r \<Rightarrow>
             (case timeout_set tmo of
                None \<Rightarrow> None
              | Some t \<Rightarrow>
                  (case shell_timeout_update r (deadline_returncode E) (deadline_now E) of
                     Inl e \<Rightarrow> Some (Inl e)
                   | Inr (r', u) \<Rightarrow> Some (Inr (execute_shell_finish r' u, u)))))"

text \<open>\<^verbatim>\<open>execute_shell\<close> records the arguments and schedules \<^verbatim>\<open>_execute_shell\<close>.\<close>

definition execute_shell ::
  "run \<Rightarrow> string list \<Rightarrow> (string \<times> string) list option \<Rightarrow> string option \<Rightarrow> run" where
  "execute_shell r args env cwd =
     (let r1 = r\<lparr>priv_args := Some args, priv_env := env\<rparr>;
          r2 = (case cwd of
                  Some d \<Rightarrow> if d \<noteq> [] then r1\<lparr>priv_working_directory := Some d\<rparr> else r1
                | None \<Rightarrow> r1)
      in r2\<lparr>priv_task := Some AsyncioTask\<rparr>)"


section \<open>TaskRunner (tasks/task_runner.py)\<close>

datatype Repeat = NEVER | ALWAYS | Times int

datatype Trigger = MANUAL | ON_START

datatype KeepPolicy = COUNT | AGE | COUNT_AND_AGE

text \<open>The scheduling and retention keywords that \<^verbatim>\<open>run\<close> and \<^verbatim>\<open>command\<close> accept.\<close>

record task_config =
  schedule :: "string option"
  trigger :: Trigger
  repeat :: Repeat
  keep :: "int option"
  max_age :: "string option"
  keep_policy :: KeepPolicy

text \<open>
  Modelled from the spec: the class \<^verbatim>\<open>Task\<close> (\<^verbatim>\<open>tasks/task_hook\<close>) is not among the sources.
  A task has its name, its target and the configuration fixed at creation; the
  attributes \<^verbatim>\<open>repeat\<close> and \<^verbatim>\<open>schedule\<close> that \<^verbatim>\<open>task_runner.py\<close> reads are the constructor's
  arguments of those names.  The kind is \<open>SHELL\<close> where \<^verbatim>\<open>command\<close> passes it and \<open>CALLABLE\<close>
  where \<^verbatim>\<open>run\<close> leaves it out.
\<close>

record task = task_config +
  task_name :: string
  task_call :: call_target
  task_kind :: TaskType

definition Task_init :: "string \<Rightarrow> call_target \<Rightarrow> task_config \<Rightarrow> TaskType \<Rightarrow> task" where
  "Task_init n c cfg k =
     \<lparr> schedule = schedule cfg, trigger = trigger cfg, repeat = repeat cfg,
       keep = keep cfg, max_age = max_age cfg, keep_policy = keep_policy cfg,
       task_name = n, task_call = c, task_kind = k \<rparr>"

subsection \<open>Signal handlers\<close>

text \<open>The three items of the list that \<^verbatim>\<open>__init__\<close> iterates over.\<close>

datatype signal_item = SIGINT | SIGTERM | SIG_IGN

datatype signal_handler = SIG_DFL_handler | SIG_IGN_handler | Default_int_handler | Python_handler string

text \<open>What a signal handler does to the process: the calls it makes, in order.\<close>

datatype effect =
    Executor_shutdown bool
  | Signal_signal signal_item signal_handler
  | Raise_signal signal_item

text \<open>\<^verbatim>\<open>shutdown_executor(sig, executor, default_handler)\<close>.\<close>

definition shutdown_executor :: "signal_item \<Rightarrow> signal_handler \<Rightarrow> effect list" where
  "shutdown_executor sg default_handler = [Executor_shutdown True, Signal_signal sg default_handler]"

text \<open>
  The local variables \<^verbatim>\<open>sig\<close> and \<^verbatim>\<open>default_handler\<close> of \<^verbatim>\<open>__init__\<close>.  The handler that the
  loop registers is \<^verbatim>\<open>lambda: shutdown_executor(sig, self._executor, default_handler)\<close>; a
  Python closure refers to the variables of the enclosing call, not to the values they
  had when the lambda was made, so every registered lambda reads them when it is called.
\<close>

record init_locals =
  sig :: signal_item
  default_handler :: signal_handler

text \<open>
  The \<^verbatim>\<open>for\<close> loop of \<^verbatim>\<open>__init__\<close>: each iteration assigns both variables and registers
  the lambda for the item.  \<open>getsignal\<close> is \<^verbatim>\<open>signal.getsignal\<close> at construction.
\<close>

fun register_handlers ::
  "(signal_item \<Rightarrow> signal_handler) \<Rightarrow> signal_item list
     \<Rightarrow> signal_item list \<times> init_locals option \<Rightarrow> signal_item list \<times> init_locals option" where
  "register_handlers getsignal [] st = st"
| "register_handlers getsignal (s # ss) (registered, locals) =
     register_handlers getsignal ss
       (registered @ [s], Some \<lparr> sig = s, default_handler = getsignal s \<rparr>)"

subsection \<open>The registry\<close>

text \<open>
  The state of a \<^verbatim>\<open>TaskRunner\<close>: the dictionary of tasks in insertion order, the cleanup
  task (present or not) and its flag, the cleanup interval, the signals with a
  registered handler and the variables those handlers read.
\<close>

record task_runner =
  tasks :: "(string \<times> task) list"
  priv_cleanup_interval :: rat
  priv_cleanup_task :: "asyncio_task option"
  priv_run_cleanup :: bool
  signal_handlers :: "signal_item list"
  handler_locals :: "init_locals option"

definition TaskRunner_init :: "rat \<Rightarrow> (signal_item \<Rightarrow> signal_handler) \<Rightarrow> task_runner" where
  "TaskRunner_init cleanup_interval getsignal =
     (case register_handlers getsignal [SIGINT, SIGTERM, SIG_IGN] ([], None) of
        (registered, locals) \<Rightarrow>
          \<lparr> tasks = [], priv_cleanup_interval = cleanup_interval,
            priv_cleanup_task = None, priv_run_cleanup = False,
            signal_handlers = registered, handler_locals = locals \<rparr>)"

text \<open>
  The event loop delivers signal \<open>s\<close>: the lambda registered for \<open>s\<close> runs, if there is
  one, and reads \<^verbatim>\<open>sig\<close> and \<^verbatim>\<open>default_handler\<close>.
\<close>

definition deliver_signal :: "task_runner \<Rightarrow> signal_item \<Rightarrow> effect list option" where
  "deliver_signal tr s =
     (if s \<in> set (signal_handlers tr) then
        (case handler_locals tr of
           Some l \<Rightarrow> Some (shutdown_executor (sig l) (default_handler l))
         | None \<Rightarrow> None)
      else None)"

definition start_cleanup :: "task_runner \<Rightarrow> task_runner" where
  "start_cleanup tr = tr\<lparr>priv_run_cleanup := True, priv_cleanup_task := Some AsyncioTask\<rparr>"

text \<open>
  The \<^verbatim>\<open>timeout\<close> argument: \<^verbatim>\<open>None\<close>, a number or a duration string.  \<^verbatim>\<open>TimeParser\<close> is an
  external collaborator; \<open>parse\<close> gives the seconds for a string or the exception raised.
\<close>

datatype timeout_arg = NoTimeout | Seconds rat | Duration string

definition parse_timeout :: "(string \<Rightarrow> exn + rat) \<Rightarrow> timeout_arg \<Rightarrow> exn + rat option" where
  "parse_timeout parse t =
     (case t of
        NoTimeout \<Rightarrow> Inr None
      | Seconds n \<Rightarrow> Inr (Some n)
      | Duration d \<Rightarrow> (case parse d of Inl e \<Rightarrow> Inl e | Inr n \<Rightarrow> Inr (Some n)))"

text \<open>
  The call that \<^verbatim>\<open>run\<close> or \<^verbatim>\<open>command\<close> makes on the task and whose result it returns; the
  methods themselves belong to \<^verbatim>\<open>Task\<close>.  The first argument is the task called.
\<close>

datatype dispatch =
    Task_run task "pyval list" "(string \<times> pyval) list" "int option" "rat option"
  | Task_run_schedule task "pyval list" "(string \<times> pyval) list" "int option" "rat option"
  | Task_run_shell task "string list" "(string \<times> string) list option" "string option" bool
      "int option" "rat option" rat
  | Task_run_shell_schedule task "string list" "(string \<times> string) list option" "string option"
      bool "int option" "rat option"

text \<open>The truth value of \<^verbatim>\<open>task.schedule\<close>: \<^verbatim>\<open>None\<close> and the empty string are false.\<close>

definition schedule_set :: "string option \<Rightarrow> bool" where
  "schedule_set s = (case s of None \<Rightarrow> False | Some x \<Rightarrow> x \<noteq> [])"

text \<open>
  \<^verbatim>\<open>TaskRunner.run\<close>.  The result is \<open>Inl e\<close> when the call raises, \<open>Inr None\<close> when it returns
  \<^verbatim>\<open>None\<close> without calling the task, and \<open>Inr (Some d)\<close> when it returns the result of the
  call \<open>d\<close> on the task; the second component is the registry afterwards.
\<close>

definition TaskRunner_run ::
  "(string \<Rightarrow> exn + rat) \<Rightarrow> task_runner \<Rightarrow> callable \<Rightarrow> pyval list \<Rightarrow> int option \<Rightarrow> timeout_arg
     \<Rightarrow> task_config \<Rightarrow> (string \<times> pyval) list \<Rightarrow> (exn + dispatch option) \<times> task_runner" where
  "TaskRunner_run parse tr0 c args rid tmo cfg kwargs =
     (let tr1 = (if priv_cleanup_task tr0 = None then start_cleanup tr0 else tr0);
          command_name = name c;
          (found, tr2) =
            (case map_of (tasks tr1) command_name of
               None \<Rightarrow>
                 if truthy c then
                   (let t = Task_init command_name (Callable c) cfg CALLABLE
                    in (Some t, tr1\<lparr>tasks := tasks tr1 @ [(command_name, t)]\<rparr>))
                 else (None, tr1)
             | Some t \<Rightarrow> (Some t, tr1))
      in case parse_timeout parse tmo of
           Inl e \<Rightarrow> (Inl e, tr2)
         | Inr seconds \<Rightarrow>
             (case found of
                None \<Rightarrow> (Inr None, tr2)
              | Some t \<Rightarrow>
                  if repeat t = NEVER then (Inr (Some (Task_run t args kwargs rid seconds)), tr2)
                  else if schedule_set (schedule t) then
                    (Inr (Some (Task_run_schedule t args kwargs rid seconds)), tr2)
                  else (Inr None, tr2)))"

text \<open>
  \<^verbatim>\<open>TaskRunner.command\<close>; \<open>quote\<close> is \<^verbatim>\<open>shlex.quote\<close>.  The duration string is parsed before
  the task is looked up.
\<close>

definition TaskRunner_command ::
  "(string \<Rightarrow> exn + rat) \<Rightarrow> (string \<Rightarrow> string) \<Rightarrow> task_runner \<Rightarrow> string \<Rightarrow> string list
     \<Rightarrow> string option \<Rightarrow> (string \<times> string) list option \<Rightarrow> string option \<Rightarrow> bool \<Rightarrow> int option
     \<Rightarrow> timeout_arg \<Rightarrow> task_config \<Rightarrow> (exn + dispatch option) \<times> task_runner" where
  "TaskRunner_command parse quote tr0 command args0 alias env cwd shell rid tmo cfg =
     (let tr1 = (if priv_cleanup_task tr0 = None then start_cleanup tr0 else tr0);
          command_name = (case alias of None \<Rightarrow> command | Some a \<Rightarrow> a)
      in case parse_timeout parse tmo of
           Inl e \<Rightarrow> (Inl e, tr1)
         | Inr seconds \<Rightarrow>
             (let args = (if shell then map quote args0 else args0);
                  (t, tr2) =
                    (case map_of (tasks tr1) command_name of
                       None \<Rightarrow>
                         (let t = Task_init command_name (Command command) cfg SHELL
                          in (t, tr1\<lparr>tasks := tasks tr1 @ [(command_name, t)]\<rparr>))
                     | Some t \<Rightarrow> (t, tr1))
              in if repeat t = NEVER then
                   (Inr (Some (Task_run_shell t args env cwd shell rid seconds
                                 (priv_cleanup_interval tr2))), tr2)
                 else if schedule_set (schedule t) then
                   (Inr (Some (Task_run_shell_schedule t args env cwd shell rid seconds)), tr2)
                 else (Inr None, tr2)))"

subsection \<open>The cleanup sweep\<close>

text \<open>
  The \<^verbatim>\<open>for\<close> loop of \<^verbatim>\<open>_cleanup_scheduled_tasks\<close>.  \<open>cleanup t\<close> is what \<^verbatim>\<open>await task.cleanup()\<close>
  raises for task \<open>t\<close> (\<open>None\<close> when it returns).  The loop gives the tasks whose cleanup
  was called, in order, and the exception that ended it, if any.
\<close>

fun cleanup_each :: "(task \<Rightarrow> exn option) \<Rightarrow> task list \<Rightarrow> task list \<times> exn option" where
  "cleanup_each cleanup [] = ([], None)"
| "cleanup_each cleanup (t # ts) =
     (case cleanup t of
        Some e \<Rightarrow> ([t], Some e)
      | None \<Rightarrow> (case cleanup_each cleanup ts of (called, raised) \<Rightarrow> (t # called, raised)))"

text \<open>
  \<^verbatim>\<open>_cleanup_scheduled_tasks\<close>: the loop inside \<^verbatim>\<open>try: ... except Exception: pass\<close>.  The
  result is the tasks whose cleanup was called and the exception that leaves the method.
\<close>

definition priv_cleanup_scheduled_tasks ::
  "(task \<Rightarrow> exn option) \<Rightarrow> task_runner \<Rightarrow> task list \<times> exn option" where
  "priv_cleanup_scheduled_tasks cleanup tr =
     (case cleanup_each cleanup (map snd (tasks tr)) of
        (called, raised) \<Rightarrow> (called, except_pass raised))"


section \<open>Counting the status predicates\<close>

definition count_true :: "bool list \<Rightarrow> nat" where
  "count_true bs = length (filter (\<lambda>b. b) bs)"

section \<open>Example inputs\<close>

text \<open>\<^verbatim>\<open>command("echo", "hi")\<close>: the run, and an environment in which the process prints and exits with 0 before the first poll ends.\<close>

definition echo_run :: run where
  "echo_run = execute_shell (Run_init 1 (Command ''echo'') SHELL None 0) [''hi''] None None"

definition echo_env :: shell_env where
  "echo_env =
     \<lparr> spawned = Some \<lparr> pid = 4242, returncode = None \<rparr>,
       observations =
         [\<lparr> ob_stderr = [], ob_stdout = ''hi'' @ [CHR 0x0A], ob_returncode = Some 0,
            ob_now = 1 \<rparr>],
       deadline_returncode = None, deadline_now = 0 \<rparr>"

text \<open>The same run once its process has exited and \<^verbatim>\<open>_execute_shell\<close> has returned.\<close>

definition finished_echo_run :: run where
  "finished_echo_run =
     echo_run\<lparr>priv_process := Some \<lparr> pid = 4242, returncode = Some 0 \<rparr>, status := COMPLETE\<rparr>"

text \<open>An ordinary function for the worker pool, and a coroutine function.\<close>

definition pool_call :: callable where
  "pool_call = \<lparr> name = ''work'', is_coroutine = False, truthy = True \<rparr>"

definition coro_call :: callable where
  "coro_call = \<lparr> name = ''fetch'', is_coroutine = True, truthy = True \<rparr>"

text \<open>The handlers in place when the registry is built.\<close>

definition original_handlers :: "signal_item \<Rightarrow> signal_handler" where
  "original_handlers s =
     (case s of SIGINT \<Rightarrow> Default_int_handler | SIGTERM \<Rightarrow> SIG_DFL_handler | SIG_IGN \<Rightarrow> SIG_DFL_handler)"

text \<open>A duration parser that knows one string.\<close>

definition seconds_parser :: "string \<Rightarrow> exn + rat" where
  "seconds_parser d = (if d = ''30s'' then Inr 30 else Inl (Exn OtherError ''invalid duration''))"

text \<open>The keyword defaults of \<^verbatim>\<open>run\<close> and \<^verbatim>\<open>command\<close>, and two other configurations.\<close>

definition default_config :: task_config where
  "default_config =
     \<lparr> schedule = None, trigger = MANUAL, repeat = NEVER, keep = None, max_age = None,
       keep_policy = COUNT \<rparr>"

definition scheduled_config :: task_config where
  "scheduled_config =
     \<lparr> schedule = Some ''30s'', trigger = ON_START, repeat = ALWAYS, keep = Some 3,
       max_age = Some ''1h'', keep_policy = COUNT_AND_AGE \<rparr>"

definition unscheduled_config :: task_config where
  "unscheduled_config = default_config\<lparr>repeat := ALWAYS\<rparr>"

definition fresh_runner :: task_runner where
  "fresh_runner = TaskRunner_init 1 original_handlers"

text \<open>The registry after one \<^verbatim>\<open>run(work)\<close> and after one \<^verbatim>\<open>command("hyperscale", ..., alias="run_test")\<close>.\<close>

definition runner_after_run :: task_runner where
  "runner_after_run =
     snd (TaskRunner_run seconds_parser fresh_runner pool_call [] None NoTimeout default_config [])"

definition runner_after_command :: task_runner where
  "runner_after_command =
     snd (TaskRunner_command seconds_parser (\<lambda>a. a) fresh_runner ''hyperscale'' [''run'', ''test.py'']
            (Some ''run_test'') None None False None NoTimeout default_config)"

text \<open>
  The registry after \<^verbatim>\<open>run(work, repeat="ALWAYS")\<close> and after
  \<^verbatim>\<open>command("hyperscale", alias="nightly", repeat="ALWAYS")\<close>, both without schedule.
\<close>

definition runner_unscheduled :: task_runner where
  "runner_unscheduled =
     snd (TaskRunner_command seconds_parser (\<lambda>a. a)
            (snd (TaskRunner_run seconds_parser fresh_runner pool_call [] None NoTimeout
                    unscheduled_config []))
            ''hyperscale'' [''run''] (Some ''nightly'') None None False None NoTimeout
            unscheduled_config)"

text \<open>A registry with two tasks, and a sweep in which the cleanup of the first one raises.\<close>

definition two_tasks :: task_runner where
  "two_tasks =
     snd (TaskRunner_command seconds_parser (\<lambda>a. a) runner_after_command ''hyperscale'' [''new'', ''test.py'']
            (Some ''new_test'') None None False None NoTimeout default_config)"

definition first_raises :: "task \<Rightarrow> exn option" where
  "first_raises t =
     (if task_name t = ''run_test'' then Some (Exn OtherError ''cleanup failed'') else None)"

section \<open>Supporting lemmas\<close>

subsection \<open>Cancel and abort\<close>

lemma cancel_sets_cancelled: "cancel terminate r = Inr (r\<lparr>status := CANCELLED\<rparr>)"
  by (simp add: cancel_def except_pass_def split: option.splits)

lemma cancel_idempotent:
  "cancel terminate r = Inr r' \<Longrightarrow> cancel terminate' r' = Inr r'"
  by (auto simp add: cancel_sets_cancelled)

lemma cancel_on_cancelled: "status r = CANCELLED \<Longrightarrow> cancel terminate r = Inr r"
  by (simp add: cancel_sets_cancelled)

lemma abort_cases:
  "abort kill r =
     (case priv_process r of
        None \<Rightarrow> Inr (r\<lparr>status := CANCELLED\<rparr>)
      | Some p \<Rightarrow> (case kill of None \<Rightarrow> Inr (r\<lparr>status := CANCELLED\<rparr>) | Some e \<Rightarrow> Inl e))"
  by (simp add: abort_def except_pass_def split: option.splits)

lemma abort_without_process:
  "priv_process r = None \<Longrightarrow> abort kill r = Inr (r\<lparr>status := CANCELLED\<rparr>)"
  by (simp add: abort_cases)

subsection \<open>In-process execution\<close>

text \<open>Whenever \<^verbatim>\<open>_execute\<close> returns, the run is COMPLETE or FAILED.\<close>

lemma execute_try_ok: "execute_try r sem b = (Ok u, r', sem') \<Longrightarrow> status r' = COMPLETE"
  by (auto simp add: execute_try_def Let_def split: option.splits bool.splits attempt.splits)

lemma execute_final_status:
  "(case priv_execute format_exc r sem b now of
      None \<Rightarrow> True
    | Some (r', sem') \<Rightarrow> status r' = COMPLETE \<or> status r' = FAILED)"
proof -
  obtain a r1 s1 where t: "execute_try r sem b = (a, r1, s1)"
    by (cases "execute_try r sem b") auto
  show ?thesis
  proof (cases a)
    case (Ok u)
    with t execute_try_ok[of r sem b u r1 s1] show ?thesis by (simp add: priv_execute_def)
  next
    case (Raised e)
    with t show ?thesis by (simp add: priv_execute_def)
  next
    case Suspended
    with t show ?thesis by (simp add: priv_execute_def)
  qed
qed

text \<open>A pool-bound callable that returns, on a run without timeout, gives its slot back.\<close>

lemma execute_pool_return_releases:
  assumes "\<not> call_is_coroutine (call r)" and "timeout_set (timeout r) = None" and "0 < sem"
  shows "\<exists>r'. priv_execute format_exc r sem (Finishes d (Returns v)) now = Some (r', sem)
           \<and> status r' = COMPLETE \<and> result r' = v"
  using assms
  by (auto simp add: priv_execute_def execute_try_def await_def acquire_def release_def)

text \<open>A pool-bound callable that raises leaves the slot taken.\<close>

lemma execute_pool_raise_holds_slot:
  assumes "\<not> call_is_coroutine (call r)" and "timeout_set (timeout r) = None" and "0 < sem"
  shows "\<exists>r'. priv_execute format_exc r sem (Finishes d (Raises e)) now = Some (r', sem - 1)
           \<and> status r' = FAILED"
  using assms
  by (auto simp add: priv_execute_def execute_try_def await_def acquire_def release_def)

text \<open>A coroutine that runs longer than the run's timeout fails with the timeout message.\<close>

lemma execute_coroutine_timeout:
  assumes "call_is_coroutine (call r)" and "timeout_set (timeout r) = Some t"
      and "b = Never \<or> (\<exists>d res. b = Finishes d res \<and> of_int t < d)"
  shows "\<exists>r'. priv_execute format_exc r sem b now = Some (r', sem) \<and> status r' = FAILED
           \<and> error r' = Some (timeout_message (run_id r) (timeout r))"
  using assms
  by (auto simp add: priv_execute_def execute_try_def wait_for_def split: outcome.splits)

text \<open>The two messages differ whatever they are about.\<close>

lemma failure_message_not_timeout_message: "failure_message rid m \<noteq> timeout_message rid t"
proof -
  have "failure_message rid m =
          (''Err. - Task Run - '' @ str_int rid @ '' - '')
            @ (''failed. Encountered exception - '' @ m @ ''.'')"
    by (simp add: failure_message_def)
  moreover have "timeout_message rid t =
          (''Err. - Task Run - '' @ str_int rid @ '' - '')
            @ (''timed out. Exceeded deadline of - '' @ str_opt_int t @ '' - seconds.'')"
    by (simp add: timeout_message_def)
  ultimately show ?thesis by (simp del: append_assoc)
qed

text \<open>A pool-bound run with a timeout fails at once, whatever the callable does.\<close>

lemma execute_pool_timeout_type_error:
  assumes "\<not> call_is_coroutine (call r)" and "timeout_set (timeout r) = Some t" and "0 < sem"
  shows "\<exists>r'. priv_execute format_exc r sem b now = Some (r', sem - 1) \<and> status r' = FAILED
           \<and> error r' \<noteq> Some (timeout_message (run_id r) (timeout r))"
  using assms
  by (auto simp add: priv_execute_def execute_try_def acquire_def wait_for_without_timeout_def
        failure_message_not_timeout_message)

subsection \<open>Subprocess execution\<close>

lemma get_run_update_keeps:
  assumes "get_run_update r ob = (r', u)"
  shows "result r' = result r" and "run_id r' = run_id r"
    and "priv_process r \<noteq> None \<Longrightarrow> update_result u = PyStr (ob_stdout ob)"
    and "priv_process r = None \<Longrightarrow> priv_process r' = None"
  using assms
  by (auto simp add: get_run_update_def Let_def update_result_def split: option.splits)

lemma poll_loop_keeps:
  assumes "poll_loop r u obs = Polled r' u' \<or> poll_loop r u obs = PollWaiting r'"
  shows "result r' = result r \<and> run_id r' = run_id r"
  using assms
proof (induction obs arbitrary: r u)
  case Nil
  then show ?case by (auto split: option.splits)
next
  case (Cons ob rest)
  show ?case
  proof (cases "\<exists>p. priv_process r = Some p \<and> returncode p = None")
    case False
    with Cons.prems show ?thesis by (auto split: option.splits)
  next
    case True
    obtain r1 u1 where g: "get_run_update r ob = (r1, u1)" by (cases "get_run_update r ob")
    let ?r2 = "r1\<lparr>elapsed := ob_now ob - start r1\<rparr>"
    from True g have "poll_loop r u (ob # rest) = poll_loop ?r2 u1 rest" by auto
    with Cons.prems
    have "poll_loop ?r2 u1 rest = Polled r' u' \<or> poll_loop ?r2 u1 rest = PollWaiting r'"
      by simp
    from Cons.IH[OF this] get_run_update_keeps(1,2)[OF g] show ?thesis by simp
  qed
qed

lemma poll_loop_text:
  assumes "poll_loop r u obs = Polled r' u'" and "\<exists>s. update_result u = PyStr s"
  shows "\<exists>s. update_result u' = PyStr s"
  using assms
proof (induction obs arbitrary: r u)
  case Nil
  then show ?case by (auto split: option.splits)
next
  case (Cons ob rest)
  show ?case
  proof (cases "\<exists>p. priv_process r = Some p \<and> returncode p = None")
    case False
    with Cons.prems show ?thesis by (auto split: option.splits)
  next
    case True
    obtain r1 u1 where g: "get_run_update r ob = (r1, u1)" by (cases "get_run_update r ob")
    let ?r2 = "r1\<lparr>elapsed := ob_now ob - start r1\<rparr>"
    from True g have "poll_loop r u (ob # rest) = poll_loop ?r2 u1 rest" by auto
    with Cons.prems have p: "poll_loop ?r2 u1 rest = Polled r' u'" by simp
    from True get_run_update_keeps(3)[OF g] have "\<exists>s. update_result u1 = PyStr s" by auto
    from Cons.IH[OF p this] show ?thesis .
  qed
qed

lemma poll_keeps:
  assumes "priv_poll_for_shell_complete r obs = Polled r' u'
           \<or> priv_poll_for_shell_complete r obs = PollWaiting r'"
  shows "result r' = result r \<and> run_id r' = run_id r"
proof (cases obs)
  case Nil
  with assms show ?thesis
    by (auto simp add: priv_poll_for_shell_complete_def split: option.splits)
next
  case (Cons ob rest)
  obtain r1 u1 where g: "get_run_update r ob = (r1, u1)" by (cases "get_run_update r ob")
  with assms Cons
  have "poll_loop r1 u1 rest = Polled r' u' \<or> poll_loop r1 u1 rest = PollWaiting r'"
    by (simp add: priv_poll_for_shell_complete_def)
  from poll_loop_keeps[OF this] get_run_update_keeps(1,2)[OF g] show ?thesis by simp
qed

lemma poll_text:
  assumes "priv_poll_for_shell_complete r obs = Polled r' u'"
  shows "\<exists>s. update_result u' = PyStr s"
proof (cases obs)
  case Nil
  with assms show ?thesis
    by (auto simp add: priv_poll_for_shell_complete_def split: option.splits)
next
  case (Cons ob rest)
  obtain r1 u1 where g: "get_run_update r ob = (r1, u1)" by (cases "get_run_update r ob")
  with assms Cons have p: "poll_loop r1 u1 rest = Polled r' u'"
    by (simp add: priv_poll_for_shell_complete_def)
  show ?thesis
  proof (cases "priv_process r")
    case None
    with get_run_update_keeps(4)[OF g] have "priv_process r1 = None" by simp
    with p show ?thesis by simp
  next
    case (Some p0)
    with get_run_update_keeps(3)[OF g] have "\<exists>s. update_result u1 = PyStr s" by simp
    from poll_loop_text[OF p this] show ?thesis .
  qed
qed

lemma execute_shell_finish_fields:
  "status (execute_shell_finish r u) = (if return_code r = Some 0 then COMPLETE else FAILED)"
  "return_code (execute_shell_finish r u) = return_code r"
  "error (execute_shell_finish r u) =
     (if return_code r = Some 0 then update_error u
      else Some (failure_message (run_id r) (str_opt_str (update_error u))))"
  by (simp_all add: execute_shell_finish_def Let_def return_code_def
        split: sum.splits option.splits)

lemma execute_shell_finish_result:
  "result (execute_shell_finish r u) =
     (case update_result u of PyBytes b \<Rightarrow> PyStr b | _ \<Rightarrow> result r)"
  by (simp add: execute_shell_finish_def Let_def py_decode_def split: pyval.splits)

lemma shell_timeout_update_keeps:
  assumes "shell_timeout_update r rc now = Inr (r', u)"
  shows "result r' = result r" "run_id r' = run_id r" "update_result u = PyNone"
  using assms
  by (auto simp add: shell_timeout_update_def Let_def update_result_def split: option.splits)

lemma execute_shell_shape:
  assumes "priv_execute_shell r0 shell tmo E = Some (Inr (r, u))"
  shows "\<exists>r1. r = execute_shell_finish r1 u \<and> result r1 = result r0 \<and> run_id r1 = run_id r0
            \<and> ((\<exists>s. update_result u = PyStr s) \<or> update_result u = PyNone)"
proof -
  define r3 where "r3 = (case spawned E of
       Some p \<Rightarrow> (if shell then r0\<lparr>priv_command_type := Shell\<rparr> else r0)\<lparr>priv_process := Some p\<rparr>
     | None \<Rightarrow> (if shell then r0\<lparr>priv_command_type := Shell\<rparr> else r0))\<lparr>status := RUNNING\<rparr>"
  have r3: "result r3 = result r0" "run_id r3 = run_id r0"
    by (simp_all add: r3_def split: option.splits)
  have unfolded: "priv_execute_shell r0 shell tmo E =
     (case priv_poll_for_shell_complete r3 (observations E) of
           Polled r u \<Rightarrow> Some (Inr (execute_shell_finish r u, u))
         | PollRaised r e \<Rightarrow> Some (Inl e)
         | PollWaiting r \<Rightarrow>
             (case timeout_set tmo of
                None \<Rightarrow> None
              | Some t \<Rightarrow>
                  (case shell_timeout_update r (deadline_returncode E) (deadline_now E) of
                     Inl e \<Rightarrow> Some (Inl e)
                   | Inr (r', u) \<Rightarrow> Some (Inr (execute_shell_finish r' u, u)))))"
    by (simp add: priv_execute_shell_def r3_def Let_def)
  show ?thesis
  proof (cases "priv_poll_for_shell_complete r3 (observations E)")
    case (Polled r1 u1)
    with assms unfolded have e: "r = execute_shell_finish r1 u" "u1 = u" by auto
    from poll_keeps[of r3 "observations E" r1 u1] Polled r3
    have "result r1 = result r0" "run_id r1 = run_id r0" by simp_all
    moreover from poll_text[OF Polled] e have "\<exists>s. update_result u = PyStr s" by simp
    ultimately show ?thesis using e by blast
  next
    case (PollRaised r1 e)
    with assms unfolded show ?thesis by simp
  next
    case (PollWaiting r1)
    from poll_keeps[of r3 "observations E" r1] PollWaiting r3
    have k: "result r1 = result r0" "run_id r1 = run_id r0" by simp_all
    from assms unfolded PollWaiting obtain r2 where
      t: "shell_timeout_update r1 (deadline_returncode E) (deadline_now E) = Inr (r2, u)"
      and e: "r = execute_shell_finish r2 u"
      by (auto split: option.splits sum.splits)
    from shell_timeout_update_keeps[OF t] k e show ?thesis by auto
  qed
qed

text \<open>
  Whenever \<^verbatim>\<open>_execute_shell\<close> returns, the status follows the exit code, the error text
  is the snapshot's (wrapped in the failure message unless the exit code is 0), and the
  run's \<^verbatim>\<open>result\<close> is what it was before the call.
\<close>

lemma execute_shell_outcome:
  assumes "priv_execute_shell r0 shell tmo E = Some (Inr (r, u))"
  shows "status r = (if return_code r = Some 0 then COMPLETE else FAILED)
       \<and> error r = (if return_code r = Some 0 then update_error u
                    else Some (failure_message (run_id r0) (str_opt_str (update_error u))))
       \<and> result r = result r0"
proof -
  from execute_shell_shape[OF assms] obtain r1 where
    shape: "r = execute_shell_finish r1 u"
    and same: "result r1 = result r0" "run_id r1 = run_id r0"
    and plain: "(\<exists>s. update_result u = PyStr s) \<or> update_result u = PyNone"
    by blast
  have "result r = result r0"
    using shape same plain by (auto simp add: execute_shell_finish_result)
  then show ?thesis using shape same by (simp add: execute_shell_finish_fields)
qed

subsection \<open>The registry\<close>

lemma run_on_existing_task:
  assumes "map_of (tasks tr) (name c) = Some t"
  shows "tasks (snd (TaskRunner_run parse tr c args rid tmo cfg kwargs)) = tasks tr"
    and "fst (TaskRunner_run parse tr c args rid tmo cfg kwargs) =
          (case parse_timeout parse tmo of
             Inl e \<Rightarrow> Inl e
           | Inr seconds \<Rightarrow>
               if repeat t = NEVER then Inr (Some (Task_run t args kwargs rid seconds))
               else if schedule_set (schedule t) then
                 Inr (Some (Task_run_schedule t args kwargs rid seconds))
               else Inr None)"
  using assms
  by (simp_all add: TaskRunner_run_def start_cleanup_def Let_def split: sum.splits)

lemma command_on_existing_task:
  assumes "map_of (tasks tr) (case alias of None \<Rightarrow> command | Some a \<Rightarrow> a) = Some t"
  shows "tasks (snd (TaskRunner_command parse quote tr command args alias env cwd shell rid tmo cfg))
           = tasks tr"
    and "fst (TaskRunner_command parse quote tr command args alias env cwd shell rid tmo cfg) =
          (case parse_timeout parse tmo of
             Inl e \<Rightarrow> Inl e
           | Inr seconds \<Rightarrow>
               if repeat t = NEVER then
                 Inr (Some (Task_run_shell t (if shell then map quote args else args) env cwd
                              shell rid seconds (priv_cleanup_interval tr)))
               else if schedule_set (schedule t) then
                 Inr (Some (Task_run_shell_schedule t (if shell then map quote args else args)
                              env cwd shell rid seconds))
               else Inr None)"
  using assms
  by (simp_all add: TaskRunner_command_def start_cleanup_def Let_def split: sum.splits)

text \<open>A first call registers the task under the name (for \<^verbatim>\<open>run\<close>: when the callable is true).\<close>

lemma run_registers:
  "truthy c \<Longrightarrow>
     \<exists>t. map_of (tasks (snd (TaskRunner_run parse tr c args rid tmo cfg kwargs))) (name c) = Some t"
  by (auto simp add: TaskRunner_run_def start_cleanup_def Let_def map_add_def
        split: sum.splits option.splits)

lemma command_registers:
  "parse_timeout parse tmo = Inr seconds \<Longrightarrow>
     \<exists>t. map_of (tasks (snd (TaskRunner_command parse quote tr command args alias env cwd shell
                               rid tmo cfg)))
            (case alias of None \<Rightarrow> command | Some a \<Rightarrow> a) = Some t"
  by (auto simp add: TaskRunner_command_def start_cleanup_def Let_def map_add_def
        split: sum.splits option.splits)

lemma run_unscheduled:
  assumes "map_of (tasks (snd (TaskRunner_run parse tr c args rid tmo cfg kwargs))) (name c)
             = Some t"
      and "repeat t \<noteq> NEVER" and "schedule t = None"
  shows "fst (TaskRunner_run parse tr c args rid tmo cfg kwargs) =
           (case parse_timeout parse tmo of Inl e \<Rightarrow> Inl e | Inr seconds \<Rightarrow> Inr None)"
  using assms
  by (auto simp add: TaskRunner_run_def start_cleanup_def Let_def schedule_set_def
        split: sum.splits option.splits if_splits)

lemma command_unscheduled:
  assumes "map_of (tasks (snd (TaskRunner_command parse quote tr command args alias_opt env cwd
                                 shell rid tmo cfg)))
              (case alias_opt of None \<Rightarrow> command | Some a \<Rightarrow> a) = Some t"
      and "repeat t \<noteq> NEVER" and "schedule t = None"
  shows "fst (TaskRunner_command parse quote tr command args alias_opt env cwd shell rid tmo cfg) =
           (case parse_timeout parse tmo of Inl e \<Rightarrow> Inl e | Inr seconds \<Rightarrow> Inr None)"
  using assms
  by (auto simp add: TaskRunner_command_def start_cleanup_def Let_def schedule_set_def
        split: sum.splits option.splits if_splits)

subsection \<open>The cleanup sweep and the signal handlers\<close>

lemma cleanup_each_eq:
  "cleanup_each cleanup ts =
     (takeWhile (\<lambda>t. cleanup t = None) ts @ take 1 (dropWhile (\<lambda>t. cleanup t = None) ts),
      (case dropWhile (\<lambda>t. cleanup t = None) ts of [] \<Rightarrow> None | t # rest \<Rightarrow> cleanup t))"
  by (induction ts) (auto split: option.splits prod.splits)

lemma register_handlers_three:
  "register_handlers getsignal [SIGINT, SIGTERM, SIG_IGN] ([], None) =
     ([SIGINT, SIGTERM, SIG_IGN], Some \<lparr> sig = SIG_IGN, default_handler = getsignal SIG_IGN \<rparr>)"
  by simp

lemma deliver_registered:
  "deliver_signal (TaskRunner_init interval getsignal) s =
     Some [Executor_shutdown True, Signal_signal SIG_IGN (getsignal SIG_IGN)]"
  by (cases s) (simp_all add: deliver_signal_def TaskRunner_init_def shutdown_executor_def)

lemma example_registries:
  "tasks runner_after_run = [(''work'', Task_init ''work'' (Callable pool_call) default_config CALLABLE)]"
  "tasks runner_after_command =
     [(''run_test'', Task_init ''run_test'' (Command ''hyperscale'') default_config SHELL)]"
  "tasks two_tasks =
     [(''run_test'', Task_init ''run_test'' (Command ''hyperscale'') default_config SHELL),
      (''new_test'', Task_init ''new_test'' (Command ''hyperscale'') default_config SHELL)]"
  by (simp_all add: two_tasks_def runner_after_run_def runner_after_command_def fresh_runner_def
        TaskRunner_init_def TaskRunner_run_def TaskRunner_command_def start_cleanup_def Let_def
        pool_call_def parse_timeout_def Task_init_def default_config_def)

lemma unscheduled_registry:
  "tasks runner_unscheduled =
     [(''work'', Task_init ''work'' (Callable pool_call) unscheduled_config CALLABLE),
      (''nightly'', Task_init ''nightly'' (Command ''hyperscale'') unscheduled_config SHELL)]"
  by (simp add: runner_unscheduled_def fresh_runner_def TaskRunner_init_def TaskRunner_run_def
        TaskRunner_command_def start_cleanup_def Let_def pool_call_def parse_timeout_def
        Task_init_def unscheduled_config_def default_config_def schedule_set_def)

lemma unscheduled_task_fields:
  "repeat (Task_init n c unscheduled_config k) = ALWAYS"
  "schedule (Task_init n c unscheduled_config k) = None"
  by (simp_all add: Task_init_def unscheduled_config_def default_config_def)

section \<open>The claims\<close>

subsection \<open>C1: the outcome of a subprocess run\<close>

text \<open>
  C1 says that a subprocess run whose process exits with code 0 ends COMPLETE with the
  captured standard output in its \<^verbatim>\<open>result\<close> field, and ends FAILED with the error context
  otherwise.  The status follows the exit code as claimed, and the error text is the
  standard error that the last poll read.  The result is not as claimed:
  \<^verbatim>\<open>_execute_shell\<close> assigns \<^verbatim>\<open>update.result.decode()\<close>, but the snapshot's result is already
  a \<^verbatim>\<open>str\<close>, the call raises, and the handler drops the exception.  For
  \<^verbatim>\<open>command("echo", "hi")\<close> the run ends COMPLETE with exit code 0, its \<^verbatim>\<open>result\<close> is still
  \<^verbatim>\<open>None\<close>, and the text is only in the snapshot that the coroutine returns.
\<close>

theorem execute_shell_echo_result_unset:
  "map_option (map_sum id (\<lambda>(r, u). (status r, return_code r, result r, update_result u)))
     (priv_execute_shell echo_run False None echo_env)
   = Some (Inr (COMPLETE, Some 0, PyNone, PyStr (''hi'' @ [CHR 0x0A])))"
  by (simp add: priv_execute_shell_def echo_run_def echo_env_def execute_shell_def Run_init_def
      priv_poll_for_shell_complete_def get_run_update_def Let_def execute_shell_finish_def
      update_error_def update_result_def py_decode_def return_code_def timeout_set_def)

subsection \<open>C2: the semaphore slot of a pool-bound execution\<close>

text \<open>
  C2 says that a pool-bound execution gives back the slot it acquired whether the
  callable returns, raises or times out.  \<^verbatim>\<open>_execute\<close> releases the slot only on the path
  where the callable returns: with two free slots, a callable that raises leaves one
  free slot behind and the run FAILED.
\<close>

theorem execute_pool_raise_leaks_slot:
  "map_option (\<lambda>(r, sem). (status r, sem))
     (priv_execute format_exc (execute (Run_init 1 (Callable pool_call) CALLABLE None 0)) 2
        (Finishes 1 (Raises (Exn OtherError ''boom''))) 1)
   = Some (FAILED, 1)"
  by (simp add: priv_execute_def execute_try_def execute_def Run_init_def pool_call_def
       timeout_set_def call_is_coroutine_def acquire_def release_def await_def)

subsection \<open>C3: the error of a run that exceeds its timeout\<close>

text \<open>
  C3 says that an in-process run whose callable exceeds the timeout ends FAILED with the
  timeout message, in the coroutine branch and in the pool-bound branch.  The pool-bound
  branch calls \<^verbatim>\<open>asyncio.wait_for\<close> without its \<^verbatim>\<open>timeout\<close> argument: a pool-bound run with
  timeout 1 whose callable takes 2 seconds ends FAILED with the message of the TypeError,
  which is not the timeout message.
\<close>

theorem execute_pool_timeout_reports_type_error:
  "map_option (\<lambda>(r, sem). (status r, error r, error r = Some (timeout_message 1 (Some 1))))
     (priv_execute format_exc (execute (Run_init 1 (Callable pool_call) CALLABLE (Some 1) 0)) 2
        (Finishes 2 (Returns (PyInt 5))) 3)
   = Some (FAILED,
           Some (failure_message 1
                  (''wait_for() missing 1 required positional argument: ''
                     @ [CHR 0x27] @ ''timeout'' @ [CHR 0x27])),
           False)"
  by (simp add: priv_execute_def execute_try_def execute_def Run_init_def pool_call_def
       timeout_set_def call_is_coroutine_def acquire_def release_def wait_for_without_timeout_def
       failure_message_not_timeout_message)

subsection \<open>C4: terminal statuses\<close>

text \<open>
  C4 says that a run in a terminal status never changes status again.  Against it: the
  finished \<^verbatim>\<open>echo\<close> run is COMPLETE and \<^verbatim>\<open>cancel\<close> makes it CANCELLED; and on a run that was
  cancelled while its process was polled, the end of \<^verbatim>\<open>_execute_shell\<close> replaces CANCELLED
  by FAILED once the process has exited with the code of the terminate signal.
\<close>

theorem cancel_terminal_run_counterexample:
  "status finished_echo_run = COMPLETE
   \<and> map_sum id status (cancel None finished_echo_run) = Inr CANCELLED
   \<and> status (execute_shell_finish
               (finished_echo_run\<lparr>priv_process := Some \<lparr> pid = 4242, returncode = Some (- 15) \<rparr>,
                                   status := CANCELLED\<rparr>)
               (ShellUpdate \<lparr> sp_run_id = 1, sp_process_id = 4242, sp_command = Command ''echo'',
                  sp_args = Some [''hi''], sp_status = CANCELLED, sp_return_code = Some (- 15),
                  sp_env = None, sp_working_directory = None, sp_command_type = Subprocess,
                  sp_error = Some [], sp_result = PyStr [], sp_trace = None, sp_elapsed = 1 \<rparr>))
       = FAILED"
  by (simp add: finished_echo_run_def cancel_sets_cancelled execute_shell_finish_fields return_code_def)

text \<open>
  C4, amended.  No status is protected against a later write.  \<^verbatim>\<open>cancel\<close>, and \<^verbatim>\<open>abort\<close>
  when its kill succeeds, set CANCELLED whatever the status was, so a CANCELLED run stays
  CANCELLED under them; \<^verbatim>\<open>update_status\<close> stores the status it is given; the end of
  \<^verbatim>\<open>_execute_shell\<close> sets COMPLETE for exit code 0 and FAILED otherwise; and \<^verbatim>\<open>_execute\<close>,
  when it returns, leaves the run COMPLETE or FAILED.  None of them reads the status
  that the run had before.
\<close>

theorem status_writes_ignore_previous_status:
  "cancel terminate r = Inr (r\<lparr>status := CANCELLED\<rparr>)
   \<and> abort None r = Inr (r\<lparr>status := CANCELLED\<rparr>)
   \<and> status (update_status r s now) = s
   \<and> status (execute_shell_finish r u) = (if return_code r = Some 0 then COMPLETE else FAILED)
   \<and> (case priv_execute format_exc r sem b now of
        None \<Rightarrow> True
      | Some (r', sem') \<Rightarrow> status r' = COMPLETE \<or> status r' = FAILED)"
  using execute_final_status[of format_exc r sem b now]
  by (simp add: cancel_sets_cancelled abort_cases execute_shell_finish_fields update_status_def
        split: option.splits)

subsection \<open>C5: the cleanup sweep\<close>

text \<open>
  C5 says that a sweep calls the cleanup of every registered task and that one cleanup
  raising does not keep the others from running.  Against it: with the tasks
  \<^verbatim>\<open>run_test\<close> and \<^verbatim>\<open>new_test\<close> registered in this order and the cleanup of \<^verbatim>\<open>run_test\<close> raising,
  the sweep calls the cleanup of \<^verbatim>\<open>run_test\<close> only.
\<close>

theorem cleanup_skips_later_tasks_counterexample:
  "map task_name (map snd (tasks two_tasks)) = [''run_test'', ''new_test'']
   \<and> map task_name (fst (priv_cleanup_scheduled_tasks first_raises two_tasks)) = [''run_test'']"
  by (simp add: priv_cleanup_scheduled_tasks_def example_registries first_raises_def Task_init_def)

text \<open>
  C5, amended.  A sweep calls the cleanups in registration order up to and including the
  first one that raises; the exception does not leave the sweep, and the tasks registered
  after the raising one are not cleaned in that sweep.  When no cleanup raises, every
  registered task is cleaned.
\<close>

theorem cleanup_sweep_stops_at_first_raise:
  "priv_cleanup_scheduled_tasks cleanup tr =
     (takeWhile (\<lambda>t. cleanup t = None) (map snd (tasks tr))
        @ take 1 (dropWhile (\<lambda>t. cleanup t = None) (map snd (tasks tr))),
      None)"
  by (simp add: priv_cleanup_scheduled_tasks_def cleanup_each_eq except_pass_def)

subsection \<open>C6: cancel and abort never raise\<close>

text \<open>
  C6 says that \<^verbatim>\<open>cancel\<close> and \<^verbatim>\<open>abort\<close> are idempotent and never raise.  For \<^verbatim>\<open>cancel\<close> this
  holds, and for \<^verbatim>\<open>abort\<close> on a run without a process handle.  But \<^verbatim>\<open>abort\<close> calls
  \<^verbatim>\<open>self._process.kill()\<close> outside any \<^verbatim>\<open>try\<close>, where \<^verbatim>\<open>cancel\<close> guards its signal: on the
  finished \<^verbatim>\<open>echo\<close> run, whose process has exited, the ProcessLookupError of \<^verbatim>\<open>kill\<close> leaves
  \<^verbatim>\<open>abort\<close>.
\<close>

theorem abort_exited_process_raises:
  "abort (Some (Exn ProcessLookupError [])) finished_echo_run = Inl (Exn ProcessLookupError [])"
  by (simp add: abort_def finished_echo_run_def)

subsection \<open>C7: a second call under the same name\<close>

text \<open>
  C7.  When a task is already registered under the name (the callable's name for \<^verbatim>\<open>run\<close>,
  the alias or else the command for \<^verbatim>\<open>command\<close>), the call leaves the dictionary of tasks
  as it is, and what it returns is determined by the registered task and by the
  arguments, run id and timeout of this call: the schedule, trigger, repeat, keep,
  max_age and keep_policy passed to it play no part.
\<close>

theorem existing_task_reused:
  "(map_of (tasks tr) (name c) = Some t \<longrightarrow>
      tasks (snd (TaskRunner_run parse tr c args rid tmo cfg kwargs)) = tasks tr
      \<and> fst (TaskRunner_run parse tr c args rid tmo cfg kwargs) =
          (case parse_timeout parse tmo of
             Inl e \<Rightarrow> Inl e
           | Inr seconds \<Rightarrow>
               if repeat t = NEVER then Inr (Some (Task_run t args kwargs rid seconds))
               else if schedule_set (schedule t) then
                 Inr (Some (Task_run_schedule t args kwargs rid seconds))
               else Inr None))
   \<and> (map_of (tasks tr) (case alias_opt of None \<Rightarrow> command | Some a \<Rightarrow> a) = Some t' \<longrightarrow>
      tasks (snd (TaskRunner_command parse quote tr command cargs alias_opt env cwd shell rid tmo cfg))
        = tasks tr
      \<and> fst (TaskRunner_command parse quote tr command cargs alias_opt env cwd shell rid tmo cfg) =
          (case parse_timeout parse tmo of
             Inl e \<Rightarrow> Inl e
           | Inr seconds \<Rightarrow>
               if repeat t' = NEVER then
                 Inr (Some (Task_run_shell t' (if shell then map quote cargs else cargs) env cwd
                              shell rid seconds (priv_cleanup_interval tr)))
               else if schedule_set (schedule t') then
                 Inr (Some (Task_run_shell_schedule t' (if shell then map quote cargs else cargs)
                              env cwd shell rid seconds))
               else Inr None))"
  by (intro conjI impI; (erule run_on_existing_task | erule command_on_existing_task))

text \<open>
  Two calls each: after \<^verbatim>\<open>run(work)\<close> and after \<^verbatim>\<open>command("hyperscale", alias="run_test")\<close>
  with the defaults, a second call with another configuration dispatches on the task of
  the first call.
\<close>

theorem existing_task_reused_witness:
  "map_of (tasks runner_after_run) (name pool_call)
     = Some (Task_init ''work'' (Callable pool_call) default_config CALLABLE)
   \<and> tasks (snd (TaskRunner_run seconds_parser runner_after_run pool_call [PyInt 7] None
                   (Duration ''30s'') scheduled_config [])) = tasks runner_after_run
   \<and> fst (TaskRunner_run seconds_parser runner_after_run pool_call [PyInt 7] None
             (Duration ''30s'') scheduled_config [])
       = Inr (Some (Task_run (Task_init ''work'' (Callable pool_call) default_config CALLABLE)
                      [PyInt 7] [] None (Some 30)))
   \<and> map_of (tasks runner_after_command) ''run_test''
       = Some (Task_init ''run_test'' (Command ''hyperscale'') default_config SHELL)
   \<and> tasks (snd (TaskRunner_command seconds_parser (\<lambda>a. a) runner_after_command ''other''
                   [''new''] (Some ''run_test'') None None False None (Duration ''30s'')
                   scheduled_config)) = tasks runner_after_command
   \<and> fst (TaskRunner_command seconds_parser (\<lambda>a. a) runner_after_command ''other''
             [''new''] (Some ''run_test'') None None False None (Duration ''30s'')
             scheduled_config)
       = Inr (Some (Task_run_shell
                      (Task_init ''run_test'' (Command ''hyperscale'') default_config SHELL)
                      [''new''] None None False None (Some 30) 1))"
proof -
  have a: "map_of (tasks runner_after_run) (name pool_call)
             = Some (Task_init ''work'' (Callable pool_call) default_config CALLABLE)"
    by (simp add: example_registries pool_call_def)
  have b: "map_of (tasks runner_after_command) (case Some ''run_test'' of None \<Rightarrow> ''other'' | Some a \<Rightarrow> a)
             = Some (Task_init ''run_test'' (Command ''hyperscale'') default_config SHELL)"
    by (simp add: example_registries)
  have i: "priv_cleanup_interval runner_after_command = 1"
    by (simp add: runner_after_command_def fresh_runner_def TaskRunner_init_def
          TaskRunner_command_def start_cleanup_def Let_def parse_timeout_def)
  have r: "repeat (Task_init n c default_config k) = NEVER" for n c k
    by (simp add: Task_init_def default_config_def)
  from a b i r
    existing_task_reused[where tr = runner_after_run and c = pool_call
      and t = "Task_init ''work'' (Callable pool_call) default_config CALLABLE"
      and parse = seconds_parser and args = "[PyInt 7]" and rid = None
      and tmo = "Duration ''30s''" and cfg = scheduled_config and kwargs = "[]"]
    existing_task_reused[where tr = runner_after_command and alias_opt = "Some ''run_test''"
      and command = "''other''"
      and t' = "Task_init ''run_test'' (Command ''hyperscale'') default_config SHELL"
      and parse = seconds_parser and quote = "\<lambda>a. a" and cargs = "[''new'']" and env = None
      and cwd = None and shell = False and rid = None
      and tmo = "Duration ''30s''" and cfg = scheduled_config]
  show ?thesis
    by (simp add: parse_timeout_def seconds_parser_def)
qed

subsection \<open>C8: the signal handlers\<close>

text \<open>
  C8 says that the handler of a termination signal shuts the pool down, restores that
  signal's own original handler and delivers the signal again.  Against it: on SIGINT,
  whose original handler is \<^verbatim>\<open>default_int_handler\<close>, the registered lambda shuts the pool
  down and then calls \<^verbatim>\<open>signal.signal\<close> for the last item of the list with that item's
  handler; nothing delivers SIGINT again.
\<close>

theorem sigint_handler_counterexample:
  "deliver_signal fresh_runner SIGINT
     = Some [Executor_shutdown True, Signal_signal SIG_IGN SIG_DFL_handler]
   \<and> original_handlers SIGINT = Default_int_handler
   \<and> deliver_signal fresh_runner SIGINT
       \<noteq> Some [Executor_shutdown True, Signal_signal SIGINT Default_int_handler,
                Raise_signal SIGINT]"
  by (simp add: fresh_runner_def deliver_registered original_handlers_def)

text \<open>
  C8, amended.  When a signal with a registered handler arrives, the handler shuts the
  worker pool down, cancelling queued work, and then installs with \<^verbatim>\<open>signal.signal\<close> the
  handler that \<^verbatim>\<open>signal.getsignal\<close> gave at construction for one of the listed entries.  It
  does nothing else: the signal is not delivered again.
\<close>

theorem signal_handler_effects:
  "s \<in> set (signal_handlers (TaskRunner_init interval getsignal)) \<Longrightarrow>
     \<exists>restored. deliver_signal (TaskRunner_init interval getsignal) s
                  = Some [Executor_shutdown True, Signal_signal restored (getsignal restored)]"
  by (simp add: deliver_registered)

theorem signal_handler_effects_witness:
  "SIGTERM \<in> set (signal_handlers (TaskRunner_init 1 original_handlers))
   \<and> (\<exists>restored. deliver_signal (TaskRunner_init 1 original_handlers) SIGTERM
                  = Some [Executor_shutdown True,
                          Signal_signal restored (original_handlers restored)])"
proof -
  have h: "SIGTERM \<in> set (signal_handlers (TaskRunner_init 1 original_handlers))"
    by (simp add: TaskRunner_init_def)
  from h signal_handler_effects[OF h] show ?thesis by simp
qed

subsection \<open>C9: a repeating task without schedule\<close>

text \<open>
  C9 says that every call of \<^verbatim>\<open>run\<close> or \<^verbatim>\<open>command\<close> on a task with a repeat setting other
  than NEVER and no schedule returns \<^verbatim>\<open>None\<close>, with no run and no error.  Against it: with
  \<^verbatim>\<open>work\<close> and \<^verbatim>\<open>nightly\<close> registered with repeat ALWAYS and no schedule, a call whose timeout
  is a duration string that the parser rejects raises the parser's exception, from \<^verbatim>\<open>run\<close>
  and from \<^verbatim>\<open>command\<close> alike.
\<close>

theorem rejected_duration_raises_counterexample:
  "map_of (tasks runner_unscheduled) (name pool_call)
     = Some (Task_init ''work'' (Callable pool_call) unscheduled_config CALLABLE)
   \<and> repeat (Task_init ''work'' (Callable pool_call) unscheduled_config CALLABLE) = ALWAYS
   \<and> schedule (Task_init ''work'' (Callable pool_call) unscheduled_config CALLABLE) = None
   \<and> fst (TaskRunner_run seconds_parser runner_unscheduled pool_call [] None
             (Duration ''soon'') default_config [])
       = Inl (Exn OtherError ''invalid duration'')
   \<and> map_of (tasks runner_unscheduled) ''nightly''
       = Some (Task_init ''nightly'' (Command ''hyperscale'') unscheduled_config SHELL)
   \<and> repeat (Task_init ''nightly'' (Command ''hyperscale'') unscheduled_config SHELL) = ALWAYS
   \<and> schedule (Task_init ''nightly'' (Command ''hyperscale'') unscheduled_config SHELL) = None
   \<and> fst (TaskRunner_command seconds_parser (\<lambda>a. a) runner_unscheduled ''hyperscale'' [''run'']
             (Some ''nightly'') None None False None (Duration ''soon'') default_config)
       = Inl (Exn OtherError ''invalid duration'')"
  by (simp add: unscheduled_registry unscheduled_task_fields pool_call_def TaskRunner_run_def
        TaskRunner_command_def start_cleanup_def Let_def parse_timeout_def seconds_parser_def)

text \<open>
  C9, amended.  When the task that \<^verbatim>\<open>run\<close> or \<^verbatim>\<open>command\<close> finds or creates under the name has
  a repeat setting other than NEVER and no schedule, the call makes no call on the task,
  so no run is created or dispatched; it returns \<^verbatim>\<open>None\<close>, unless its timeout is a duration
  string that the parser rejects, in which case it raises the parser's exception.
\<close>

theorem unscheduled_repeat_returns_none_or_raises:
  "(map_of (tasks (snd (TaskRunner_run parse tr c args rid tmo cfg kwargs))) (name c) = Some t
      \<and> repeat t \<noteq> NEVER \<and> schedule t = None
     \<longrightarrow> fst (TaskRunner_run parse tr c args rid tmo cfg kwargs)
           = (case parse_timeout parse tmo of Inl e \<Rightarrow> Inl e | Inr seconds \<Rightarrow> Inr None))
   \<and> (map_of (tasks (snd (TaskRunner_command parse quote tr command cargs alias_opt env cwd
                               shell rid tmo cfg)))
           (case alias_opt of None \<Rightarrow> command | Some a \<Rightarrow> a) = Some t'
      \<and> repeat t' \<noteq> NEVER \<and> schedule t' = None
     \<longrightarrow> fst (TaskRunner_command parse quote tr command cargs alias_opt env cwd shell rid tmo cfg)
           = (case parse_timeout parse tmo of Inl e \<Rightarrow> Inl e | Inr seconds \<Rightarrow> Inr None))"
  using run_unscheduled[of parse tr c args rid tmo cfg kwargs t]
        command_unscheduled[of parse quote tr command cargs alias_opt env cwd shell rid tmo cfg t']
  by blast

text \<open>
  A first call that creates the task (\<^verbatim>\<open>run\<close>) and a call on a registered one (\<^verbatim>\<open>command\<close>),
  both with a duration that the parser accepts: each returns \<^verbatim>\<open>None\<close>.
\<close>

theorem unscheduled_repeat_returns_none_or_raises_witness:
  "map_of (tasks (snd (TaskRunner_run seconds_parser fresh_runner pool_call [] None
                         (Duration ''30s'') unscheduled_config []))) (name pool_call)
     = Some (Task_init ''work'' (Callable pool_call) unscheduled_config CALLABLE)
   \<and> repeat (Task_init ''work'' (Callable pool_call) unscheduled_config CALLABLE) \<noteq> NEVER
   \<and> schedule (Task_init ''work'' (Callable pool_call) unscheduled_config CALLABLE) = None
   \<and> fst (TaskRunner_run seconds_parser fresh_runner pool_call [] None
             (Duration ''30s'') unscheduled_config []) = Inr None
   \<and> map_of (tasks (snd (TaskRunner_command seconds_parser (\<lambda>a. a) runner_unscheduled
                           ''hyperscale'' [''run''] (Some ''nightly'') None None False None
                           (Duration ''30s'') default_config))) ''nightly''
       = Some (Task_init ''nightly'' (Command ''hyperscale'') unscheduled_config SHELL)
   \<and> repeat (Task_init ''nightly'' (Command ''hyperscale'') unscheduled_config SHELL) \<noteq> NEVER
   \<and> schedule (Task_init ''nightly'' (Command ''hyperscale'') unscheduled_config SHELL) = None
   \<and> fst (TaskRunner_command seconds_parser (\<lambda>a. a) runner_unscheduled
             ''hyperscale'' [''run''] (Some ''nightly'') None None False None
             (Duration ''30s'') default_config) = Inr None"
proof -
  have p: "parse_timeout seconds_parser (Duration ''30s'') = Inr (Some 30)"
    by (simp add: parse_timeout_def seconds_parser_def)
  have a: "map_of (tasks (snd (TaskRunner_run seconds_parser fresh_runner pool_call [] None
                           (Duration ''30s'') unscheduled_config []))) (name pool_call)
       = Some (Task_init ''work'' (Callable pool_call) unscheduled_config CALLABLE)"
    by (simp add: TaskRunner_run_def fresh_runner_def TaskRunner_init_def start_cleanup_def
          Let_def p pool_call_def)
  have b: "map_of (tasks (snd (TaskRunner_command seconds_parser (\<lambda>a. a) runner_unscheduled
                           ''hyperscale'' [''run''] (Some ''nightly'') None None False None
                           (Duration ''30s'') default_config)))
             (case Some ''nightly'' of None \<Rightarrow> ''hyperscale'' | Some a \<Rightarrow> a)
       = Some (Task_init ''nightly'' (Command ''hyperscale'') unscheduled_config SHELL)"
    by (simp add: TaskRunner_command_def unscheduled_registry start_cleanup_def Let_def p)
  from p a b unscheduled_task_fields
    unscheduled_repeat_returns_none_or_raises[where parse = seconds_parser
      and tmo = "Duration ''30s''" and tr = fresh_runner and c = pool_call and args = "[]"
      and rid = None and cfg = unscheduled_config and kwargs = "[]"
      and t = "Task_init ''work'' (Callable pool_call) unscheduled_config CALLABLE"]
    unscheduled_repeat_returns_none_or_raises[where parse = seconds_parser
      and tmo = "Duration ''30s''" and tr = runner_unscheduled and quote = "\<lambda>a. a"
      and command = "''hyperscale''" and cargs = "[''run'']" and alias_opt = "Some ''nightly''"
      and env = None and cwd = None and shell = False
      and rid = None and cfg = default_config
      and t' = "Task_init ''nightly'' (Command ''hyperscale'') unscheduled_config SHELL"]
  show ?thesis by simp
qed

subsection \<open>C10: the status predicates\<close>

text \<open>
  C10.  Whatever the state of a run, exactly one of the six predicates created, pending,
  running, completed, failed and cancelled is true of it: each compares the one status
  field with a different member of the enumeration.
\<close>

theorem status_predicates_exactly_one:
  "count_true [created r, pending r, running r, completed r, failed r, cancelled r] = 1"
  by (cases "status r")
     (simp_all add: count_true_def created_def pending_def running_def completed_def
        failed_def cancelled_def)

end
